theory Spec2Isabelle
  imports Complex_Main
begin

section \<open>Request values\<close>

text \<open>
  The HTTP handlers of \<^verbatim>\<open>src/api/agent_registration.py\<close> read a parsed JSON body
  (\<^verbatim>\<open>request.json\<close>).  A JSON value is one of Python's \<^verbatim>\<open>None\<close>, \<^verbatim>\<open>bool\<close>,
  \<^verbatim>\<open>int\<close>, \<^verbatim>\<open>float\<close>, \<^verbatim>\<open>str\<close>, \<^verbatim>\<open>list\<close> or \<^verbatim>\<open>dict\<close>.  A \<^typ>\<open>char\<close> stands
  for one code point of a Python string, so \<^const>\<open>length\<close> is Python's \<^verbatim>\<open>len\<close> on
  strings of code points below 256.
\<close>

datatype json =
    JNull
  | JBool bool
  | JInt int
  | JFloat rat
  | JStr string
  | JList "json list"
  | JObj "(string \<times> json) list"

text \<open>A request dictionary (\<^verbatim>\<open>Dict[str, Any]\<close>); \<^verbatim>\<open>field in data\<close> is \<open>data field \<noteq> None\<close>.\<close>

type_synonym pydict = "string \<rightharpoonup> json"

datatype py_error = TypeError | KeyError | AttributeError | DatabaseError

text \<open>Python truth value of a JSON value (\<^verbatim>\<open>not data[field]\<close>).\<close>

fun truthy :: "json \<Rightarrow> bool" where
  "truthy JNull = False"
| "truthy (JBool b) = b"
| "truthy (JInt i) = (i \<noteq> 0)"
| "truthy (JFloat r) = (r \<noteq> 0)"
| "truthy (JStr s) = (s \<noteq> [])"
| "truthy (JList xs) = (xs \<noteq> [])"
| "truthy (JObj kvs) = (kvs \<noteq> [])"

text \<open>\<^verbatim>\<open>len(x)\<close>: defined on strings, lists and dicts, a \<^verbatim>\<open>TypeError\<close> otherwise.\<close>

fun py_len :: "json \<Rightarrow> py_error + nat" where
  "py_len (JStr s) = Inr (length s)"
| "py_len (JList xs) = Inr (length xs)"
| "py_len (JObj kvs) = Inr (length (remdups (map fst kvs)))"
| "py_len _ = Inl TypeError"

text \<open>
  \<^verbatim>\<open>isinstance(x, int)\<close> with the integer it denotes: \<^verbatim>\<open>bool\<close> is a subclass of
  \<^verbatim>\<open>int\<close> in Python (\<^verbatim>\<open>True == 1\<close>, \<^verbatim>\<open>False == 0\<close>).
\<close>

fun as_int :: "json \<Rightarrow> int option" where
  "as_int (JInt i) = Some i"
| "as_int (JBool b) = Some (if b then 1 else 0)"
| "as_int _ = None"


fun is_list :: "json \<Rightarrow> bool" where
  "is_list (JList xs) = True"
| "is_list _ = False"

section \<open>Registration settings and security utilities\<close>

definition ALLOWED_AGENT_TYPES :: "string list" where
  "ALLOWED_AGENT_TYPES = [''general'', ''specialized'', ''mcp'', ''custom'']"

text \<open>
  The pattern of \<^verbatim>\<open>validate_endpoint_url\<close> is
  \<^verbatim>\<open>^https?://[a-zA-Z0-9][a-zA-Z0-9-._~:/?#\[\]@!$&\'()*+,;=]*$\<close>.
  \<open>alnum\<close> is the class \<^verbatim>\<open>[a-zA-Z0-9]\<close>; \<open>url_char\<close> is the second class, in which
  the \<^verbatim>\<open>-\<close> after \<^verbatim>\<open>0-9\<close> is a literal.
\<close>

definition alnum :: "char \<Rightarrow> bool" where
  "alnum c \<longleftrightarrow>
     c \<in> set ''abcdefghijklmnopqrstuvwxyzABCDEFGHIJKLMNOPQRSTUVWXYZ0123456789''"

definition url_char :: "char \<Rightarrow> bool" where
  "url_char c \<longleftrightarrow>
     alnum c \<or> c \<in> set ''-._~:/?#[]@!$&()*+,;='' \<or> c = CHR 0x27"

text \<open>\<^verbatim>\<open>^https?://\<close>: the rest of the string after the scheme, if the scheme matches.\<close>

fun strip_scheme :: "string \<Rightarrow> string option" where
  "strip_scheme s =
     (if take 8 s = ''https://'' then Some (drop 8 s)
      else if take 7 s = ''http://'' then Some (drop 7 s)
      else None)"

text \<open>
  \<^verbatim>\<open>re.match(pattern, url)\<close>.  Without \<^verbatim>\<open>re.MULTILINE\<close>, \<^verbatim>\<open>$\<close> matches at the end of
  the string and also just before a newline that ends the string; the newline is not
  in the class, so the starred class has to consume everything before it.
\<close>

definition re_match_endpoint :: "string \<Rightarrow> bool" where
  "re_match_endpoint url =
     (case strip_scheme url of
        None \<Rightarrow> False
      | Some rest \<Rightarrow>
          (case rest of
             [] \<Rightarrow> False
           | c # cs \<Rightarrow>
               alnum c \<and>
               list_all url_char
                 (if cs \<noteq> [] \<and> last cs = CHR 0x0A then butlast cs else cs)))"

text \<open>\<^verbatim>\<open>validate_endpoint_url\<close>; \<^verbatim>\<open>re.match\<close> raises \<^verbatim>\<open>TypeError\<close> on a non-string.\<close>

fun validate_endpoint_url :: "json \<Rightarrow> py_error + bool" where
  "validate_endpoint_url (JStr url) = Inr (re_match_endpoint url \<and> length url < 500)"
| "validate_endpoint_url _ = Inl TypeError"

section \<open>Validation functions\<close>

text \<open>The loop over \<^verbatim>\<open>required_fields\<close>: the first missing or falsy field, if any.\<close>

fun first_missing :: "pydict \<Rightarrow> string list \<Rightarrow> string option" where
  "first_missing data [] = None"
| "first_missing data (f # fs) =
     (case data f of
        None \<Rightarrow> Some f
      | Some v \<Rightarrow> if \<not> truthy v then Some f else first_missing data fs)"

text \<open>\<^verbatim>\<open>data.get(key, default)\<close>.\<close>

definition dict_get :: "pydict \<Rightarrow> string \<Rightarrow> json \<Rightarrow> json" where
  "dict_get data k dflt = (case data k of None \<Rightarrow> dflt | Some v \<Rightarrow> v)"

text \<open>The shared check on \<^verbatim>\<open>max_concurrent_sessions\<close>.\<close>

definition bad_max_sessions :: "json \<Rightarrow> bool" where
  "bad_max_sessions v = (case as_int v of None \<Rightarrow> True | Some n \<Rightarrow> n < 1 \<or> n > 1000)"

text \<open>
  \<^verbatim>\<open>validate_agent_registration\<close>: \<open>Inr (True, None)\<close> when the data is valid,
  \<open>Inr (False, Some message)\<close> when it is rejected, \<open>Inl e\<close> when the function raises.
\<close>

definition validate_agent_registration :: "pydict \<Rightarrow> py_error + (bool \<times> string option)" where
  "validate_agent_registration data =
     (case first_missing data [''agent_name'', ''agent_type'', ''endpoint_url''] of
        Some f \<Rightarrow> Inr (False, Some (''Missing required field: '' @ f))
      | None \<Rightarrow>
         (case py_len (dict_get data ''agent_name'' JNull) of
            Inl e \<Rightarrow> Inl e
          | Inr n \<Rightarrow>
             if n < 3 \<or> n > 100 then
               Inr (False, Some ''Agent name must be between 3 and 100 characters'')
             else if dict_get data ''agent_type'' JNull \<notin> JStr ` set ALLOWED_AGENT_TYPES then
               Inr (False, Some
                 ''Invalid agent_type. Must be one of: general, specialized, mcp, custom'')
             else
               (case validate_endpoint_url (dict_get data ''endpoint_url'' JNull) of
                  Inl e \<Rightarrow> Inl e
                | Inr ok \<Rightarrow>
                   if \<not> ok then Inr (False, Some ''Invalid endpoint_url format'')
                   else if bad_max_sessions (dict_get data ''max_concurrent_sessions'' (JInt 10)) then
                     Inr (False, Some ''max_concurrent_sessions must be between 1 and 1000'')
                   else if \<not> is_list (dict_get data ''capabilities'' (JList [])) then
                     Inr (False, Some ''capabilities must be an array'')
                   else Inr (True, None))))"


text \<open>
  \<^verbatim>\<open>validate_agent_update\<close>.  Its \<^verbatim>\<open>updatable_fields\<close> list names \<^verbatim>\<open>agent_name\<close>, and
  the three checks that follow are on \<^verbatim>\<open>endpoint_url\<close>, \<^verbatim>\<open>max_concurrent_sessions\<close>
  and \<^verbatim>\<open>capabilities\<close>, each only when the key is present.
\<close>

definition updatable_fields :: "string list" where
  "updatable_fields =
     [''agent_name'', ''endpoint_url'', ''max_concurrent_sessions'', ''capabilities'', ''metadata'']"

definition validate_agent_update :: "pydict \<Rightarrow> py_error + (bool \<times> string option)" where
  "validate_agent_update data =
     (if \<not> list_ex (\<lambda>f. data f \<noteq> None) updatable_fields then
        Inr (False, Some ''At least one updatable field must be provided'')
      else
        (case (case data ''endpoint_url'' of
                 None \<Rightarrow> Inr True
               | Some u \<Rightarrow> validate_endpoint_url u) of
           Inl e \<Rightarrow> Inl e
         | Inr ok \<Rightarrow>
            if \<not> ok then Inr (False, Some ''Invalid endpoint_url format'')
            else if (case data ''max_concurrent_sessions'' of
                       None \<Rightarrow> False
                     | Some v \<Rightarrow> bad_max_sessions v) then
              Inr (False, Some ''max_concurrent_sessions must be between 1 and 1000'')
            else if (case data ''capabilities'' of
                       None \<Rightarrow> False
                     | Some v \<Rightarrow> \<not> is_list v) then
              Inr (False, Some ''capabilities must be an array'')
            else Inr (True, None)))"

section \<open>The store as the handlers see it\<close>

text \<open>
  The handlers talk to PostgreSQL through \<^verbatim>\<open>cursor.execute(sql, params)\<close>.  A parameter is
  a Python value handed to the driver, the text \<^verbatim>\<open>json.dumps(v)\<close> of a value, or the
  store's own \<^verbatim>\<open>NOW()\<close>.  Two shapes of statement occur: a call of a stored procedure
  (\<^verbatim>\<open>SELECT f(%s, ...)\<close>) and \<^verbatim>\<open>UPDATE table SET col = v, ... WHERE col = v AND ...\<close>.
  The MCP adapter adds \<^verbatim>\<open>SELECT ... FROM table WHERE col = v AND ...\<close> and the one
  \<^verbatim>\<open>UPDATE\<close> of \<^verbatim>\<open>update_session_context\<close>, whose \<^verbatim>\<open>SET\<close> clause computes from the old
  row (\<open>UpdateSessionContext session_id message_contents now\<close>).
  The stored procedures themselves (\<^verbatim>\<open>register_agent\<close>, \<^verbatim>\<open>verify_agent_api_key\<close>,
  \<^verbatim>\<open>record_health_check\<close>) are not part of the Python sources; what they answer is a
  parameter of the model.
\<close>

datatype sqlval = VJson json | VDumps json | VTime nat

datatype stmt =
    Call string "sqlval list"
  | Select string "(string \<times> sqlval) list"
  | Update string "(string \<times> sqlval) list" "(string \<times> sqlval) list"
  | UpdateSessionContext string "json list" nat

datatype exec_result = Raised | Rows "json list"

record store =
  connects :: bool
  answer :: "stmt \<Rightarrow> exec_result"

text \<open>\<^verbatim>\<open>cursor.fetchone()\<close> is the first row or \<^verbatim>\<open>None\<close>; \<^verbatim>\<open>row[key]\<close> raises on \<^verbatim>\<open>None\<close>.\<close>

fun fetchone :: "json list \<Rightarrow> json" where
  "fetchone [] = JNull"
| "fetchone (r # rs) = r"

fun subscript :: "json \<Rightarrow> string \<Rightarrow> py_error + json" where
  "subscript (JObj kvs) k =
     (case map_of (rev kvs) k of None \<Rightarrow> Inl KeyError | Some v \<Rightarrow> Inr v)"
| "subscript _ k = Inl TypeError"

definition bind_err :: "py_error + 'a \<Rightarrow> ('a \<Rightarrow> py_error + 'b) \<Rightarrow> py_error + 'b" where
  "bind_err m f = (case m of Inl e \<Rightarrow> Inl e | Inr x \<Rightarrow> f x)"

text \<open>\<^verbatim>\<open>get_db_connection()\<close> followed by one \<^verbatim>\<open>cursor.execute\<close>: the rows, or the exception.\<close>

definition execute :: "store \<Rightarrow> stmt \<Rightarrow> py_error + json list" where
  "execute st q =
     (if \<not> connects st then Inl DatabaseError
      else (case answer st q of Raised \<Rightarrow> Inl DatabaseError | Rows rs \<Rightarrow> Inr rs))"

text \<open>
  What a handler gives back: the JSON body and HTTP status of \<^verbatim>\<open>jsonify(...), code\<close>, and
  the statements whose transaction it committed, in order (\<^verbatim>\<open>conn.commit()\<close>; a handler
  that returns or raises before the commit leaves none).
\<close>

record reply =
  body :: json
  status :: nat
  committed :: "stmt list"

definition failure :: "nat \<Rightarrow> string \<Rightarrow> reply" where
  "failure code msg =
     \<lparr>body = JObj [(''success'', JBool False), (''error'', JStr msg)],
      status = code, committed = []\<rparr>"

text \<open>The \<^verbatim>\<open>except Exception\<close> clause every handler ends with.\<close>

definition catch_all :: "py_error + reply \<Rightarrow> reply" where
  "catch_all r = (case r of Inl e \<Rightarrow> failure 500 ''Internal server error'' | Inr x \<Rightarrow> x)"



section \<open>Agent registration endpoints\<close>


text \<open>
  \<^verbatim>\<open>update_agent\<close>.  \<open>header_key\<close> is \<^verbatim>\<open>request.headers.get('X-API-Key')\<close>, \<open>now\<close> the
  store's \<^verbatim>\<open>NOW()\<close>.  The \<^verbatim>\<open>SET\<close> list is built from the keys present in the request,
  \<^verbatim>\<open>agent_name\<close> first, and always ends with \<^verbatim>\<open>last_seen = NOW()\<close>.  The key
  verification runs on the same connection before the \<^verbatim>\<open>UPDATE\<close>, so the one
  \<^verbatim>\<open>conn.commit()\<close> commits both.
\<close>

definition update_fields :: "pydict \<Rightarrow> (string \<times> sqlval) list" where
  "update_fields data =
     (case data ''agent_name'' of None \<Rightarrow> [] | Some v \<Rightarrow> [(''agent_name'', VJson v)]) @
     (case data ''endpoint_url'' of None \<Rightarrow> [] | Some v \<Rightarrow> [(''endpoint_url'', VJson v)]) @
     (case data ''max_concurrent_sessions'' of
        None \<Rightarrow> [] | Some v \<Rightarrow> [(''max_concurrent_sessions'', VJson v)]) @
     (case data ''capabilities'' of None \<Rightarrow> [] | Some v \<Rightarrow> [(''capabilities'', VDumps v)]) @
     (case data ''metadata'' of None \<Rightarrow> [] | Some v \<Rightarrow> [(''metadata'', VDumps v)])"

text \<open>The \<^verbatim>\<open>SELECT verify_agent_api_key(%s, %s) AS is_valid\<close> step shared by the handlers.\<close>

definition verify_stmt :: "string \<Rightarrow> string \<Rightarrow> stmt" where
  "verify_stmt agent_id api_key =
     Call ''verify_agent_api_key'' [VJson (JStr agent_id), VJson (JStr api_key)]"

definition verify_key :: "store \<Rightarrow> string \<Rightarrow> string \<Rightarrow> py_error + bool" where
  "verify_key st agent_id api_key =
     bind_err (execute st (verify_stmt agent_id api_key)) (\<lambda>rows.
     bind_err (subscript (fetchone rows) ''is_valid'') (\<lambda>is_valid.
     Inr (truthy is_valid)))"

definition update_agent :: "store \<Rightarrow> nat \<Rightarrow> string option \<Rightarrow> string \<Rightarrow> pydict \<Rightarrow> reply" where
  "update_agent st now header_key agent_id data = catch_all
     (case header_key of
        None \<Rightarrow> Inr (failure 401 ''Missing API key'')
      | Some api_key \<Rightarrow>
         if api_key = [] then Inr (failure 401 ''Missing API key'')
         else
         bind_err (validate_agent_update data) (\<lambda>(is_valid, error).
         if \<not> is_valid then Inr (failure 400 (case error of None \<Rightarrow> [] | Some m \<Rightarrow> m))
         else
         bind_err (verify_key st agent_id api_key) (\<lambda>key_ok.
         if \<not> key_ok then Inr (failure 403 ''Invalid API key'')
         else
           let q = Update ''agent_registry''
                     (update_fields data @ [(''last_seen'', VTime now)])
                     [(''agent_id'', VJson (JStr agent_id))]
           in
           bind_err (execute st q) (\<lambda>rows.
           (case fetchone rows of
              JObj updated_agent \<Rightarrow>
                Inr \<lparr>body = JObj [(''success'', JBool True),
                                   (''agent'', JObj updated_agent),
                                   (''message'', JStr ''Agent updated successfully'')],
                      status = 200,
                      committed = [verify_stmt agent_id api_key, q]\<rparr>
            | _ \<Rightarrow>
                \<comment> \<open>\<^verbatim>\<open>dict(None)\<close> raises after \<^verbatim>\<open>conn.commit()\<close>\<close>
                Inr ((failure 500 ''Internal server error'')
                       \<lparr>committed := [verify_stmt agent_id api_key, q]\<rparr>))))))"

text \<open>
  \<^verbatim>\<open>deactivate_agent\<close> (``soft delete''): one \<^verbatim>\<open>UPDATE\<close> of the agent's row, then, under
  the comment \<^verbatim>\<open># End all active sessions\<close>, one \<^verbatim>\<open>UPDATE\<close> of its active sessions.
  The key verification runs on the same connection first, so the one \<^verbatim>\<open>conn.commit()\<close>
  commits the three statements.
\<close>

definition deactivate_agent :: "store \<Rightarrow> nat \<Rightarrow> string option \<Rightarrow> string \<Rightarrow> reply" where
  "deactivate_agent st now header_key agent_id = catch_all
     (case header_key of
        None \<Rightarrow> Inr (failure 401 ''Missing API key'')
      | Some api_key \<Rightarrow>
         if api_key = [] then Inr (failure 401 ''Missing API key'')
         else
         bind_err (verify_key st agent_id api_key) (\<lambda>key_ok.
         if \<not> key_ok then Inr (failure 403 ''Invalid API key'')
         else
           let q1 = Update ''agent_registry''
                      [(''status'', VJson (JStr ''inactive'')), (''last_seen'', VTime now)]
                      [(''agent_id'', VJson (JStr agent_id))];
               q2 = Update ''agent_sessions''
                      [(''is_active'', VJson (JBool False))]
                      [(''agent_id'', VJson (JStr agent_id)), (''is_active'', VJson (JBool True))]
           in
           bind_err (execute st q1) (\<lambda>_.
           bind_err (execute st q2) (\<lambda>_.
           Inr \<lparr>body = JObj [(''success'', JBool True),
                              (''message'', JStr ''Agent deactivated successfully'')],
                 status = 200,
                 committed = [verify_stmt agent_id api_key, q1, q2]\<rparr>))))"

section \<open>What a committed \<^verbatim>\<open>UPDATE\<close> does to the tables\<close>

text \<open>
  A row is a list of (column, value) pairs, a table a list of rows, the database a
  function from table names.  \<^verbatim>\<open>UPDATE t SET c = v, ... WHERE c' = v' AND ...\<close> rewrites
  the named columns of every row that has exactly the values of the \<^verbatim>\<open>WHERE\<close> clause
  and leaves every other row as it is.  What a stored procedure does to the tables is
  the parameter \<open>proc\<close>.
\<close>

type_synonym row = "(string \<times> sqlval) list"
type_synonym db = "string \<Rightarrow> row list"

fun set_col :: "string \<Rightarrow> sqlval \<Rightarrow> row \<Rightarrow> row" where
  "set_col c v [] = [(c, v)]"
| "set_col c v ((c', v') # r) = (if c' = c then (c, v) # r else (c', v') # set_col c v r)"

definition col :: "row \<Rightarrow> string \<Rightarrow> sqlval option" where
  "col r c = map_of r c"

definition matches :: "(string \<times> sqlval) list \<Rightarrow> row \<Rightarrow> bool" where
  "matches conds r = list_all (\<lambda>(c, v). col r c = Some v) conds"

definition apply_sets :: "(string \<times> sqlval) list \<Rightarrow> row \<Rightarrow> row" where
  "apply_sets sets r = fold (\<lambda>(c, v). set_col c v) sets r"

text \<open>
  The \<^verbatim>\<open>SET\<close> clause of \<^verbatim>\<open>update_session_context\<close>:
  \<^verbatim>\<open>conversation_context = conversation_context || %s::TEXT[], last_activity = NOW(),
  total_messages_received = total_messages_received + %s\<close>.
  In PostgreSQL an array appended to \<^verbatim>\<open>NULL\<close> is the array, and \<^verbatim>\<open>NULL + n\<close> is \<^verbatim>\<open>NULL\<close>.
\<close>

definition append_context :: "json list \<Rightarrow> nat \<Rightarrow> row \<Rightarrow> row" where
  "append_context contents now r =
     set_col ''total_messages_received''
       (case col r ''total_messages_received'' of
          Some (VJson (JInt n)) \<Rightarrow> VJson (JInt (n + int (length contents)))
        | _ \<Rightarrow> VJson JNull)
     (set_col ''last_activity'' (VTime now)
     (set_col ''conversation_context''
       (case col r ''conversation_context'' of
          Some (VJson (JList old)) \<Rightarrow> VJson (JList (old @ contents))
        | _ \<Rightarrow> VJson (JList contents)) r))"

fun exec_stmt :: "(string \<Rightarrow> sqlval list \<Rightarrow> db \<Rightarrow> db) \<Rightarrow> stmt \<Rightarrow> db \<Rightarrow> db" where
  "exec_stmt proc (Call f args) d = proc f args d"
| "exec_stmt proc (Select t conds) d = d"
| "exec_stmt proc (UpdateSessionContext session_id contents now) d =
     d(''agent_sessions'' :=
         map (\<lambda>r. if matches [(''session_id'', VJson (JStr session_id))] r
                  then append_context contents now r else r) (d ''agent_sessions''))"
| "exec_stmt proc (Update t sets conds) d =
     d(t := map (\<lambda>r. if matches conds r then apply_sets sets r else r) (d t))"

definition run_committed ::
  "(string \<Rightarrow> sqlval list \<Rightarrow> db \<Rightarrow> db) \<Rightarrow> stmt list \<Rightarrow> db \<Rightarrow> db" where
  "run_committed proc qs d = fold (exec_stmt proc) qs d"


section \<open>The registration constraints, in the specification's words\<close>







text \<open>A store that is up and answers every statement with one row.\<close>

definition store_up :: store where
  "store_up = \<lparr>connects = True,
               answer = (\<lambda>q. Rows [JObj [(''agent_id'', JStr ''a1''), (''is_valid'', JBool True)]])\<rparr>"

definition valid_request :: pydict where
  "valid_request =
     [''registration_secret'' \<mapsto> JStr ''s3'', ''agent_name'' \<mapsto> JStr ''abc'',
      ''agent_type'' \<mapsto> JStr ''general'', ''endpoint_url'' \<mapsto> JStr ''http://a'']"

text \<open>Two tables for the examples: one agent, one session of its own and one of another agent.\<close>

definition example_db :: db where
  "example_db = (\<lambda>t. [])
     (''agent_registry'' :=
        [[(''agent_id'', VJson (JStr ''a1'')), (''agent_name'', VJson (JStr ''abc'')),
          (''status'', VJson (JStr ''active''))]],
      ''agent_sessions'' :=
        [[(''session_id'', VJson (JStr ''s1'')), (''agent_id'', VJson (JStr ''a1'')),
          (''is_active'', VJson (JBool True))],
         [(''session_id'', VJson (JStr ''s2'')), (''agent_id'', VJson (JStr ''a2'')),
          (''is_active'', VJson (JBool True))]])"

text \<open>Stored procedures that write to no table.\<close>

definition no_proc :: "string \<Rightarrow> sqlval list \<Rightarrow> db \<Rightarrow> db" where
  "no_proc f args d = d"

section \<open>The MCP adapter\<close>

text \<open>
  \<^verbatim>\<open>src/agents/mcp_adapter.py\<close>.  An \<^verbatim>\<open>MCPMessage\<close> is a dataclass of five fields that
  \<^verbatim>\<open>from_dict\<close> fills from a dictionary without checking their types.
\<close>

record mcp_message =
  mtype :: json
  message_id :: json
  timestamp :: json
  payload :: json
  metadata :: json

text \<open>\<^verbatim>\<open>MCPMessage.from_dict\<close>: four required keys, \<^verbatim>\<open>data.get('metadata')\<close> for the fifth.\<close>

definition from_dict :: "json \<Rightarrow> py_error + mcp_message" where
  "from_dict data =
     bind_err (subscript data ''type'') (\<lambda>t.
     bind_err (subscript data ''message_id'') (\<lambda>i.
     bind_err (subscript data ''timestamp'') (\<lambda>ts.
     bind_err (subscript data ''payload'') (\<lambda>pl.
     Inr \<lparr>mtype = t, message_id = i, timestamp = ts, payload = pl,
          metadata = (case subscript data ''metadata'' of Inr m \<Rightarrow> m | Inl e \<Rightarrow> JNull)\<rparr>))))"

text \<open>
  What the transport does with one \<^verbatim>\<open>session.post\<close>: it times out after
  \<^verbatim>\<open>MCP_TIMEOUT_SECONDS\<close> (\<^verbatim>\<open>asyncio.TimeoutError\<close>), fails otherwise, or answers with a
  status and a body (\<open>None\<close> when \<^verbatim>\<open>response.json()\<close> raises).  The network is a
  function from the agent's endpoint to that outcome.
\<close>

datatype transport = TimedOut | NetworkError | Http nat "json option"

text \<open>
  \<^verbatim>\<open>send_mcp_message\<close>: the parsed answer on status 200, \<^verbatim>\<open>None\<close> on any other status,
  on a timeout and on any other exception (both \<^verbatim>\<open>except\<close> clauses log and return
  \<^verbatim>\<open>None\<close>).
\<close>

definition send_mcp_message :: "(json \<Rightarrow> transport) \<Rightarrow> json \<Rightarrow> mcp_message option" where
  "send_mcp_message net agent_endpoint =
     (case net agent_endpoint of
        TimedOut \<Rightarrow> None
      | NetworkError \<Rightarrow> None
      | Http code parsed \<Rightarrow>
          if code = 200 then
            (case parsed of
               None \<Rightarrow> None
             | Some data \<Rightarrow> (case from_dict data of Inl e \<Rightarrow> None | Inr m \<Rightarrow> Some m))
          else None)"

text \<open>
  \<^verbatim>\<open>get_agent_by_id\<close>: the agent's row if it exists and is active; \<^verbatim>\<open>None\<close> when there is
  none and when the query raises.
\<close>

definition get_agent_by_id :: "store \<Rightarrow> string \<Rightarrow> (string \<times> json) list option" where
  "get_agent_by_id st agent_id =
     (case execute st (Select ''agent_registry''
             [(''agent_id'', VJson (JStr agent_id)), (''status'', VJson (JStr ''active''))]) of
        Inl e \<Rightarrow> None
      | Inr rows \<Rightarrow>
          (case fetchone rows of
             JObj kvs \<Rightarrow> if kvs = [] then None else Some kvs
           | _ \<Rightarrow> None))"

text \<open>
  \<^verbatim>\<open>ChatContext\<close> and \<^verbatim>\<open>get_session_context\<close>.  The history pairs each element of the
  stored \<^verbatim>\<open>conversation_context\<close> with a role, \<^verbatim>\<open>user\<close> at even positions; iterating over
  a value that is not iterable raises, and the function then returns \<^verbatim>\<open>None\<close>.
\<close>

record chat_context =
  ctx_session_id :: json
  phone_number :: json
  conversation_history :: "(string \<times> json) list"
  session_state :: json

fun py_iter :: "json \<Rightarrow> py_error + json list" where
  "py_iter (JList xs) = Inr xs"
| "py_iter (JStr s) = Inr (map (\<lambda>c. JStr [c]) s)"
| "py_iter (JObj kvs) = Inr (map JStr (remdups (map fst kvs)))"
| "py_iter _ = Inl TypeError"

fun with_roles :: "nat \<Rightarrow> json list \<Rightarrow> (string \<times> json) list" where
  "with_roles i [] = []"
| "with_roles i (m # ms) =
     ((if i mod 2 = 0 then ''user'' else ''assistant''), m) # with_roles (Suc i) ms"

definition get_session_context :: "store \<Rightarrow> string \<Rightarrow> chat_context option" where
  "get_session_context st session_id =
     (case execute st (Select ''agent_sessions''
             [(''session_id'', VJson (JStr session_id)), (''is_active'', VJson (JBool True))]) of
        Inl e \<Rightarrow> None
      | Inr rows \<Rightarrow>
          (case fetchone rows of
             JObj kvs \<Rightarrow>
               if kvs = [] then None
               else
                 (case bind_err (subscript (JObj kvs) ''session_id'') (\<lambda>sid.
                       bind_err (subscript (JObj kvs) ''phone_number'') (\<lambda>phone.
                       bind_err (py_iter (case subscript (JObj kvs) ''conversation_context'' of
                                            Inr v \<Rightarrow> v | Inl e \<Rightarrow> JList [])) (\<lambda>msgs.
                       Inr \<lparr>ctx_session_id = sid, phone_number = phone,
                            conversation_history = with_roles 0 msgs,
                            session_state = (case subscript (JObj kvs) ''session_state'' of
                                               Inr v \<Rightarrow> v | Inl e \<Rightarrow> JObj [])\<rparr>))) of
                    Inl e \<Rightarrow> None
                  | Inr c \<Rightarrow> Some c)
           | _ \<Rightarrow> None))"

text \<open>
  \<^verbatim>\<open>update_session_context\<close>: the statements it commits.  A failure of the store is
  logged and swallowed.
\<close>

definition update_session_context :: "store \<Rightarrow> nat \<Rightarrow> string \<Rightarrow> json list \<Rightarrow> stmt list" where
  "update_session_context st now session_id message_contents =
     (let q = UpdateSessionContext session_id message_contents now in
      case execute st q of Inl e \<Rightarrow> [] | Inr rows \<Rightarrow> [q])"

text \<open>\<^verbatim>\<open>response.payload.get('response')\<close>: \<^verbatim>\<open>.get\<close> exists on a dict only.\<close>

fun payload_get :: "json \<Rightarrow> string \<Rightarrow> py_error + json" where
  "payload_get (JObj kvs) k = Inr (case map_of (rev kvs) k of None \<Rightarrow> JNull | Some v \<Rightarrow> v)"
| "payload_get _ k = Inl AttributeError"

text \<open>
  \<^verbatim>\<open>send_chat_request\<close>: the agent's reply (\<^verbatim>\<open>None\<close> is \<open>JNull\<close>) and the statements
  committed on the way.  \<^verbatim>\<open>agent['agent_name']\<close>, \<^verbatim>\<open>agent['endpoint_url']\<close> and
  \<^verbatim>\<open>response.payload.get\<close> stand outside every \<^verbatim>\<open>try\<close>, so their exceptions reach the
  caller.  Nothing in the function records a health check or a circuit-breaker event.
\<close>

definition send_chat_request ::
  "store \<Rightarrow> (json \<Rightarrow> transport) \<Rightarrow> nat \<Rightarrow> string \<Rightarrow> string \<Rightarrow> string \<Rightarrow> chat_context option
     \<Rightarrow> py_error + (json \<times> stmt list)" where
  "send_chat_request st net now agent_id session_id message context =
     (case get_agent_by_id st agent_id of
        None \<Rightarrow> Inr (JNull, [])
      | Some agent \<Rightarrow>
         (case (case context of None \<Rightarrow> get_session_context st session_id | Some c \<Rightarrow> Some c) of
            None \<Rightarrow> Inr (JNull, [])
          | Some ctx \<Rightarrow>
             bind_err (subscript (JObj agent) ''agent_name'') (\<lambda>agent_name.
             bind_err (subscript (JObj agent) ''endpoint_url'') (\<lambda>endpoint_url.
             (case send_mcp_message net endpoint_url of
                None \<Rightarrow> Inr (JNull, [])
              | Some response \<Rightarrow>
                  if mtype response = JStr ''chat.response'' then
                    bind_err (payload_get (payload response) ''response'') (\<lambda>agent_reply.
                    Inr (agent_reply,
                         update_session_context st now session_id [JStr message, agent_reply]))
                  else Inr (JNull, []))))))"

text \<open>
  \<^verbatim>\<open>send_health_check\<close>: the boolean it returns and the statements it commits.
  \<open>response_time_ms\<close> is the elapsed time it measured.  An answer of type
  \<^verbatim>\<open>health.ack\<close> is recorded as \<^verbatim>\<open>healthy\<close>; anything else, a timeout included, as
  \<^verbatim>\<open>unhealthy\<close> with the message \<^verbatim>\<open>No valid MCP response\<close>; a store that fails while
  recording makes the function return \<^verbatim>\<open>False\<close>.
\<close>

definition send_health_check ::
  "store \<Rightarrow> (json \<Rightarrow> transport) \<Rightarrow> nat \<Rightarrow> string \<Rightarrow> py_error + (bool \<times> stmt list)" where
  "send_health_check st net response_time_ms agent_id =
     (case get_agent_by_id st agent_id of
        None \<Rightarrow> Inr (False, [])
      | Some agent \<Rightarrow>
         bind_err (subscript (JObj agent) ''endpoint_url'') (\<lambda>endpoint_url.
         let response = send_mcp_message net endpoint_url;
             healthy = (case response of
                          None \<Rightarrow> False
                        | Some r \<Rightarrow> mtype r = JStr ''health.ack'');
             q = (if healthy then
                    Call ''record_health_check''
                      [VJson (JStr agent_id), VJson (JStr ''healthy''),
                       VJson (JInt (int response_time_ms)), VJson (JInt 200), VJson JNull,
                       VDumps (JObj [(''mcp_protocol'', JBool True)])]
                  else
                    Call ''record_health_check''
                      [VJson (JStr agent_id), VJson (JStr ''unhealthy''),
                       VJson JNull, VJson JNull, VJson (JStr ''No valid MCP response''),
                       VDumps (JObj [(''mcp_protocol'', JBool True)])])
         in (case execute st q of
               Inl e \<Rightarrow> Inr (False, [])
             | Inr rows \<Rightarrow> Inr (healthy, [q]))))"

text \<open>A store holding one active agent, and a network on which every request times out.\<close>

definition store_agent :: store where
  "store_agent = \<lparr>connects = True,
     answer = (\<lambda>q. Rows [JObj [(''agent_id'', JStr ''a1''), (''agent_name'', JStr ''abc''),
                                (''endpoint_url'', JStr ''http://a''),
                                (''session_id'', JStr ''s1''), (''phone_number'', JStr ''+1555'')]])\<rparr>"

definition net_timeout :: "json \<Rightarrow> transport" where
  "net_timeout endpoint = TimedOut"

section \<open>The control-plane core, modelled from the specification\<close>

text \<open>
  Modelled from the spec: the data model of section 3 (agent, health summary, session).
  Health recording, session routing, failover, the circuit breaker and the error ledger
  are stored procedures of the database (\<^verbatim>\<open>record_health_check\<close>,
  \<^verbatim>\<open>get_or_create_session\<close>, \<^verbatim>\<open>failover_session_to_healthy_agent\<close>,
  \<^verbatim>\<open>record_circuit_breaker_event\<close>, \<^verbatim>\<open>check_circuit_breaker\<close>, \<^verbatim>\<open>log_error\<close>,
  \<^verbatim>\<open>record_retry_attempt\<close>).  The Python sources and the integration tests only call
  them; their text is not among the sources.  The definitions of this section are
  therefore written from the specification's sections 3 and 4.
\<close>

datatype core_error = ValidationError | NotFoundError | NoAvailableAgentError

datatype lifecycle = Active | Inactive

datatype health_status = Healthy | Degraded | Unhealthy


record agent =
  agent_ident :: nat
  agent_type_tag :: string
  capacity :: nat
  current_sessions :: nat
  lifecycle_status :: lifecycle
  registered_at :: nat

record health_summary =
  health_score :: rat
  latencies :: "nat list"
  consecutive_failures :: nat
  derived_status :: health_status

record session =
  session_ident :: nat
  caller_key :: string
  requested_type :: string
  owner :: nat
  integrity_token :: string
  history :: "string list"
  activity :: nat
  active :: bool
  failover_eligible :: bool

record core =
  agents :: "agent list"
  health :: "nat \<rightharpoonup> health_summary"
  sessions :: "session list"
  failover_requests :: "nat list"
  next_ident :: nat

text \<open>Modelled from the spec: looking an agent up by its identity.\<close>

definition find_agent :: "core \<Rightarrow> nat \<Rightarrow> agent option" where
  "find_agent c aid = find (\<lambda>a. agent_ident a = aid) (agents c)"

subsection \<open>AgentRegistry.deactivate\<close>


subsection \<open>HealthMonitor.recordCheck\<close>

text \<open>
  Modelled from the spec: \<open>HealthMonitor.recordCheck\<close> (section 4.2; the stored procedure
  \<^verbatim>\<open>record_health_check\<close> is not among the sources).  The score becomes
  \<open>clamp(0, 100, score * 0.7 + (healthy ? 100 : 0) * 0.3)\<close>, starting from 100 on the first
  observation; the latency joins the last 20 observations; \<open>consecutiveFailures\<close>
  increments on unhealthy and resets on healthy; the status is unhealthy if the score is
  below 50 or there are 2 or more consecutive failures, degraded if the score is below
  70, healthy otherwise; once \<open>consecutiveFailures \<ge> 3\<close> the call is delegated to
  \<open>AgentRegistry.deactivate\<close>; a transition to unhealthy emits one failover request per
  active session of the agent.
\<close>






subsection \<open>SessionRouter.getOrCreateSession\<close>

text \<open>
  Modelled from the spec: the ranking of section 4.3, shared with failover.  Candidates
  are ranked by health score descending, then by fewest current sessions, then by
  earliest registration; an agent that has had no probe yet has the initial score 100.
\<close>

definition score_of :: "core \<Rightarrow> agent \<Rightarrow> rat" where
  "score_of c a = (case health c (agent_ident a) of None \<Rightarrow> 100 | Some h \<Rightarrow> health_score h)"

definition better :: "core \<Rightarrow> agent \<Rightarrow> agent \<Rightarrow> bool" where
  "better c a b \<longleftrightarrow>
     score_of c a > score_of c b \<or>
     (score_of c a = score_of c b \<and>
        (current_sessions a < current_sessions b \<or>
         (current_sessions a = current_sessions b \<and> registered_at a < registered_at b)))"

fun best_of :: "core \<Rightarrow> agent list \<Rightarrow> agent option" where
  "best_of c [] = None"
| "best_of c (a # as) =
     (case best_of c as of
        None \<Rightarrow> Some a
      | Some b \<Rightarrow> if better c b a then Some b else Some a)"

text \<open>
  Modelled from the spec: the candidate set of section 4.3: agents of the requested type
  whose status is active and that have room; when no such agent has room, capacity is
  ignored.  \<open>excluded\<close> is empty for routing; failover excludes the current owner and the
  agents flagged unhealthy.
\<close>

definition select_agent :: "core \<Rightarrow> string \<Rightarrow> (agent \<Rightarrow> bool) \<Rightarrow> agent option" where
  "select_agent c ty excluded =
     (let eligible = filter (\<lambda>a. agent_type_tag a = ty \<and> lifecycle_status a = Active \<and>
                                 \<not> excluded a) (agents c);
          with_room = filter (\<lambda>a. current_sessions a < capacity a) eligible
      in best_of c (if with_room = [] then eligible else with_room))"

text \<open>
  Modelled from the spec: \<open>SessionRouter.getOrCreateSession\<close> (section 4.3; the stored
  procedure \<^verbatim>\<open>get_or_create_session\<close> is not among the sources).  An active session of
  the pair is returned unchanged, whatever the health of its agent; otherwise an agent
  is selected, the session is created with an integrity token derived by the one-way
  function \<open>token\<close> from the session identity and the creation-time nonce, and the chosen
  agent's session counter is incremented.
\<close>

text \<open>Modelled from the spec: the active session of a (caller key, agent type) pair.\<close>

definition find_session :: "core \<Rightarrow> string \<Rightarrow> string \<Rightarrow> session option" where
  "find_session c k ty =
     find (\<lambda>s. active s \<and> caller_key s = k \<and> requested_type s = ty) (sessions c)"

text \<open>Modelled from the spec: \<open>getOrCreateSession\<close> itself.\<close>

definition get_or_create_session ::
  "(nat \<Rightarrow> nat \<Rightarrow> string) \<Rightarrow> nat \<Rightarrow> nat \<Rightarrow> core \<Rightarrow> string \<Rightarrow> string
     \<Rightarrow> core_error + (session \<times> core)" where
  "get_or_create_session token nonce now c k ty =
     (case find_session c k ty of
        Some s \<Rightarrow> Inr (s, c)
      | None \<Rightarrow>
          (case select_agent c ty (\<lambda>a. False) of
             None \<Rightarrow> Inl NoAvailableAgentError
           | Some a \<Rightarrow>
               let s = \<lparr>session_ident = next_ident c, caller_key = k, requested_type = ty,
                        owner = agent_ident a, integrity_token = token (next_ident c) nonce,
                        history = [], activity = now, active = True,
                        failover_eligible = False\<rparr>
               in Inr (s, c\<lparr>sessions := sessions c @ [s],
                            agents := map (\<lambda>b. if agent_ident b = agent_ident a
                                                then b\<lparr>current_sessions := Suc (current_sessions b)\<rparr>
                                                else b) (agents c),
                            next_ident := Suc (next_ident c)\<rparr>)))"

subsection \<open>FailoverCoordinator.failover\<close>

text \<open>
  Modelled from the spec: \<open>FailoverCoordinator.failover\<close> (section 4.4; the stored
  procedure \<^verbatim>\<open>failover_session_to_healthy_agent\<close> is not among the sources).  A session
  that is unknown or inactive gives \<open>NotFoundError\<close>; a session whose owner is active and
  healthy is a no-op success; otherwise the replacement is selected by the ranking of
  section 4.3 among the agents other than the current owner that are not flagged
  unhealthy, the owner of the session is reassigned, the prior owner's counter is
  decremented and the new owner's incremented; nothing else of the session changes.
\<close>

text \<open>Modelled from the spec: an agent whose health summary says unhealthy.\<close>

definition flagged_unhealthy :: "core \<Rightarrow> agent \<Rightarrow> bool" where
  "flagged_unhealthy c a =
     (case health c (agent_ident a) of None \<Rightarrow> False | Some h \<Rightarrow> derived_status h = Unhealthy)"

text \<open>
  Modelled from the spec: the session is already on a healthy agent (the case in which
  failover is a no-op success).
\<close>

definition owner_is_healthy :: "core \<Rightarrow> session \<Rightarrow> bool" where
  "owner_is_healthy c s =
     (case find_agent c (owner s) of
        None \<Rightarrow> False
      | Some a \<Rightarrow>
          lifecycle_status a = Active \<and>
          (case health c (agent_ident a) of None \<Rightarrow> True | Some h \<Rightarrow> derived_status h = Healthy))"

text \<open>Modelled from the spec: \<open>failover\<close> itself.\<close>

definition failover :: "core \<Rightarrow> nat \<Rightarrow> core_error + (nat \<times> core)" where
  "failover c sid =
     (case find (\<lambda>s. session_ident s = sid) (sessions c) of
        None \<Rightarrow> Inl NotFoundError
      | Some s \<Rightarrow>
          if \<not> active s then Inl NotFoundError
          else if owner_is_healthy c s then Inr (owner s, c)
          else
            (case select_agent c (requested_type s)
                    (\<lambda>a. agent_ident a = owner s \<or> flagged_unhealthy c a) of
               None \<Rightarrow> Inl NoAvailableAgentError
             | Some a \<Rightarrow>
                 Inr (agent_ident a,
                      c\<lparr>sessions := map (\<lambda>t. if session_ident t = sid
                                              then t\<lparr>owner := agent_ident a\<rparr> else t) (sessions c),
                        agents := map (\<lambda>b. if agent_ident b = owner s
                                            then b\<lparr>current_sessions := current_sessions b - 1\<rparr>
                                            else if agent_ident b = agent_ident a
                                            then b\<lparr>current_sessions := Suc (current_sessions b)\<rparr>
                                            else b) (agents c)\<rparr>)))"

text \<open>
  An example state: agent 1 is unhealthy after two consecutive failures and owns the
  one active session; agent 2 has not been probed yet.
\<close>

definition example_core :: core where
  "example_core =
     \<lparr>agents =
        [\<lparr>agent_ident = 1, agent_type_tag = ''general'', capacity = 10, current_sessions = 1,
          lifecycle_status = Active, registered_at = 0\<rparr>,
         \<lparr>agent_ident = 2, agent_type_tag = ''general'', capacity = 10, current_sessions = 0,
          lifecycle_status = Active, registered_at = 1\<rparr>],
      health = [1 \<mapsto> \<lparr>health_score = 49, latencies = [], consecutive_failures = 2,
                      derived_status = Unhealthy\<rparr>],
      sessions =
        [\<lparr>session_ident = 10, caller_key = ''+1555'', requested_type = ''general'', owner = 1,
          integrity_token = ''t10'', history = [''hello'', ''hi''], activity = 0, active = True,
          failover_eligible = False\<rparr>],
      failover_requests = [],
      next_ident = 11\<rparr>"

subsection \<open>ErrorLedger\<close>










section \<open>Properties of the registration API\<close>

subsection \<open>Validation of a registration\<close>
















subsection \<open>What registration hands to the store\<close>


subsection \<open>Updating an agent's name\<close>

lemma validate_update_ignores_name:
  "validate_agent_update (data(''agent_name'' \<mapsto> v)) =
   validate_agent_update (data(''agent_name'' \<mapsto> w))"
  by (simp add: validate_agent_update_def updatable_fields_def)

text \<open>
  Claim C10: \<^verbatim>\<open>validate_agent_update\<close> puts no constraint on \<^verbatim>\<open>agent_name\<close> (its answer is
  the same whatever value the name has), and \<^verbatim>\<open>update_agent\<close> applies the name it is
  given: the request \<^verbatim>\<open>{"agent_name": "ab"}\<close> passes validation, is answered with 200 and
  commits, after the key verification, the \<^verbatim>\<open>UPDATE\<close> that sets the agent's name to the
  two-character \<open>ab\<close>, a name that \<^verbatim>\<open>validate_agent_registration\<close> rejects.
\<close>

theorem update_agent_name_unvalidated:
  "(\<forall>data v w. validate_agent_update (data(''agent_name'' \<mapsto> v)) =
                validate_agent_update (data(''agent_name'' \<mapsto> w))) \<and>
   validate_agent_update [''agent_name'' \<mapsto> JStr ''ab''] = Inr (True, None) \<and>
   status (update_agent store_up 7 (Some ''KEY'') ''a1'' [''agent_name'' \<mapsto> JStr ''ab'']) = 200 \<and>
   committed (update_agent store_up 7 (Some ''KEY'') ''a1'' [''agent_name'' \<mapsto> JStr ''ab'']) =
     [Call ''verify_agent_api_key'' [VJson (JStr ''a1''), VJson (JStr ''KEY'')],
      Update ''agent_registry''
        [(''agent_name'', VJson (JStr ''ab'')), (''last_seen'', VTime 7)]
        [(''agent_id'', VJson (JStr ''a1''))]] \<and>
   map (\<lambda>r. col r ''agent_name'') (example_db ''agent_registry'') = [Some (VJson (JStr ''abc''))] \<and>
   map (\<lambda>r. col r ''agent_name'')
     (run_committed no_proc
        (committed (update_agent store_up 7 (Some ''KEY'') ''a1'' [''agent_name'' \<mapsto> JStr ''ab'']))
        example_db ''agent_registry'') = [Some (VJson (JStr ''ab''))] \<and>
   length ''ab'' < 3 \<and>
   validate_agent_registration (valid_request(''agent_name'' \<mapsto> JStr ''ab'')) =
     Inr (False, Some ''Agent name must be between 3 and 100 characters'')"
  by (simp add: validate_update_ignores_name validate_agent_update_def updatable_fields_def
      update_agent_def verify_key_def store_up_def execute_def bind_err_def catch_all_def
      update_fields_def run_committed_def example_db_def matches_def apply_sets_def col_def
      valid_request_def validate_agent_registration_def dict_get_def verify_stmt_def
      no_proc_def)

subsection \<open>Deactivating an agent\<close>

lemma col_set_col: "col (set_col c v r) c' = (if c' = c then Some v else col r c')"
  by (induction r) (auto simp: col_def)

lemma deactivate_agent_success:
  assumes "status (deactivate_agent st now hk aid) = 200"
  shows "\<exists>api_key. hk = Some api_key \<and>
     committed (deactivate_agent st now hk aid) =
     [verify_stmt aid api_key,
      Update ''agent_registry''
        [(''status'', VJson (JStr ''inactive'')), (''last_seen'', VTime now)]
        [(''agent_id'', VJson (JStr aid))],
      Update ''agent_sessions''
        [(''is_active'', VJson (JBool False))]
        [(''agent_id'', VJson (JStr aid)), (''is_active'', VJson (JBool True))]]"
  using assms
  by (auto simp: deactivate_agent_def bind_err_def catch_all_def failure_def Let_def
      split: sum.splits if_splits option.splits)

lemma example_deactivation_succeeds:
  "status (deactivate_agent store_up 7 (Some ''KEY'') ''a1'') = 200"
  by (simp add: deactivate_agent_def verify_key_def verify_stmt_def store_up_def execute_def
      bind_err_def catch_all_def)

text \<open>
  Claim C4, as stated: deactivation does not itself end the agent's sessions.  Here
  session \<open>s1\<close> of agent \<open>a1\<close> is active before \<^verbatim>\<open>deactivate_agent\<close> and no longer active
  after it; session \<open>s2\<close> of another agent is untouched.  The key verification is taken
  to write to no table.
\<close>

theorem deactivate_ends_active_sessions:
  "status (deactivate_agent store_up 7 (Some ''KEY'') ''a1'') = 200 \<and>
   map (\<lambda>r. (col r ''session_id'', col r ''agent_id'', col r ''is_active''))
       (example_db ''agent_sessions'') =
     [(Some (VJson (JStr ''s1'')), Some (VJson (JStr ''a1'')), Some (VJson (JBool True))),
      (Some (VJson (JStr ''s2'')), Some (VJson (JStr ''a2'')), Some (VJson (JBool True)))] \<and>
   map (\<lambda>r. (col r ''session_id'', col r ''agent_id'', col r ''is_active''))
       (run_committed no_proc (committed (deactivate_agent store_up 7 (Some ''KEY'') ''a1''))
          example_db ''agent_sessions'') =
     [(Some (VJson (JStr ''s1'')), Some (VJson (JStr ''a1'')), Some (VJson (JBool False))),
      (Some (VJson (JStr ''s2'')), Some (VJson (JStr ''a2'')), Some (VJson (JBool True)))]"
  by (simp add: deactivate_agent_def verify_key_def verify_stmt_def store_up_def execute_def
      bind_err_def catch_all_def run_committed_def example_db_def matches_def apply_sets_def
      col_def no_proc_def)

text \<open>
  Claim C4, amended: a successful \<^verbatim>\<open>deactivate_agent\<close> (status 200) commits the key
  verification followed by exactly two updates.  Taking the tables as the key
  verification leaves them (\<open>d0\<close>, whatever that stored procedure does), the two updates
  set the status of the agent's row to inactive and end every active session owned by
  that agent (\<^verbatim>\<open>is_active\<close> becomes false); they write no other column of a session, so
  the owning agent of every session stays as it was, and every session that is not an
  active session of that agent is left exactly as it was.
\<close>

theorem deactivate_agent_effect:
  assumes "status (deactivate_agent st now hk aid) = 200"
  shows "\<exists>api_key. hk = Some api_key \<and>
     (let d0 = exec_stmt proc (verify_stmt aid api_key) d;
          d' = run_committed proc (committed (deactivate_agent st now hk aid)) d in
     length (d' ''agent_registry'') = length (d0 ''agent_registry'') \<and>
     length (d' ''agent_sessions'') = length (d0 ''agent_sessions'') \<and>
     (\<forall>i < length (d0 ''agent_registry'').
        col (d0 ''agent_registry'' ! i) ''agent_id'' = Some (VJson (JStr aid)) \<longrightarrow>
        col (d' ''agent_registry'' ! i) ''status'' = Some (VJson (JStr ''inactive''))) \<and>
     (\<forall>i < length (d0 ''agent_sessions'').
        (\<forall>c. c \<noteq> ''is_active'' \<longrightarrow>
           col (d' ''agent_sessions'' ! i) c = col (d0 ''agent_sessions'' ! i) c) \<and>
        (if col (d0 ''agent_sessions'' ! i) ''agent_id'' = Some (VJson (JStr aid)) \<and>
            col (d0 ''agent_sessions'' ! i) ''is_active'' = Some (VJson (JBool True))
         then col (d' ''agent_sessions'' ! i) ''is_active'' = Some (VJson (JBool False))
         else d' ''agent_sessions'' ! i = d0 ''agent_sessions'' ! i)))"
proof -
  from deactivate_agent_success[OF assms] obtain api_key where
    k: "hk = Some api_key" and
    c: "committed (deactivate_agent st now hk aid) =
     [verify_stmt aid api_key,
      Update ''agent_registry''
        [(''status'', VJson (JStr ''inactive'')), (''last_seen'', VTime now)]
        [(''agent_id'', VJson (JStr aid))],
      Update ''agent_sessions''
        [(''is_active'', VJson (JBool False))]
        [(''agent_id'', VJson (JStr aid)), (''is_active'', VJson (JBool True))]]"
    by blast
  show ?thesis
    unfolding c run_committed_def Let_def
    by (rule exI[of _ api_key]) (simp add: k matches_def apply_sets_def col_set_col)
qed

theorem deactivate_agent_effect_witness:
  "status (deactivate_agent store_up 7 (Some ''KEY'') ''a1'') = 200 \<and>
   exec_stmt no_proc (verify_stmt ''a1'' ''KEY'') example_db = example_db \<and>
   col (run_committed no_proc (committed (deactivate_agent store_up 7 (Some ''KEY'') ''a1''))
          example_db ''agent_registry'' ! 0) ''status'' = Some (VJson (JStr ''inactive'')) \<and>
   col (run_committed no_proc (committed (deactivate_agent store_up 7 (Some ''KEY'') ''a1''))
          example_db ''agent_sessions'' ! 0) ''is_active'' = Some (VJson (JBool False)) \<and>
   run_committed no_proc (committed (deactivate_agent store_up 7 (Some ''KEY'') ''a1''))
          example_db ''agent_sessions'' ! 1 = example_db ''agent_sessions'' ! 1"
proof -
  have e: "example_db ''agent_registry'' =
        [[(''agent_id'', VJson (JStr ''a1'')), (''agent_name'', VJson (JStr ''abc'')),
          (''status'', VJson (JStr ''active''))]]"
     "example_db ''agent_sessions'' =
        [[(''session_id'', VJson (JStr ''s1'')), (''agent_id'', VJson (JStr ''a1'')),
          (''is_active'', VJson (JBool True))],
         [(''session_id'', VJson (JStr ''s2'')), (''agent_id'', VJson (JStr ''a2'')),
          (''is_active'', VJson (JBool True))]]"
    by (simp_all add: example_db_def)
  have v: "\<And>k. exec_stmt no_proc (verify_stmt ''a1'' k) example_db = example_db"
    by (simp add: verify_stmt_def no_proc_def)
  from deactivate_agent_effect[OF example_deactivation_succeeds, of no_proc example_db]
    example_deactivation_succeeds
  show ?thesis
    by (auto simp: Let_def e v All_less_Suc col_def)
qed

section \<open>Properties of the MCP adapter\<close>

subsection \<open>Timeouts of probes and dispatches\<close>

lemma store_agent_row:
  "get_agent_by_id store_agent ''a1'' =
     Some [(''agent_id'', JStr ''a1''), (''agent_name'', JStr ''abc''),
           (''endpoint_url'', JStr ''http://a''),
           (''session_id'', JStr ''s1''), (''phone_number'', JStr ''+1555'')]"
  by (simp add: get_agent_by_id_def store_agent_def execute_def)

text \<open>
  Claim C8, as stated: every probe or dispatch that times out is recorded as an
  unhealthy health check and as a circuit-breaker failure event.  On a network where
  every request times out, the dispatch \<^verbatim>\<open>send_chat_request\<close> returns no reply and commits
  no statement at all, and the probe \<^verbatim>\<open>send_health_check\<close> commits the one
  \<^verbatim>\<open>record_health_check\<close> call and nothing for a circuit breaker.
\<close>

theorem timed_out_dispatch_records_nothing:
  "net_timeout (JStr ''http://a'') = TimedOut \<and>
   send_chat_request store_agent net_timeout 7 ''a1'' ''s1'' ''hi'' None = Inr (JNull, []) \<and>
   send_health_check store_agent net_timeout 30000 ''a1'' =
     Inr (False, [Call ''record_health_check''
                    [VJson (JStr ''a1''), VJson (JStr ''unhealthy''),
                     VJson JNull, VJson JNull, VJson (JStr ''No valid MCP response''),
                     VDumps (JObj [(''mcp_protocol'', JBool True)])]])"
  by (simp add: send_chat_request_def send_health_check_def get_agent_by_id_def store_agent_def
      execute_def get_session_context_def bind_err_def send_mcp_message_def net_timeout_def)

text \<open>
  Claim C8, amended: when the request to an active agent's endpoint times out,
  \<^verbatim>\<open>send_mcp_message\<close> returns \<^verbatim>\<open>None\<close> instead of raising; the probe
  \<^verbatim>\<open>send_health_check\<close> returns \<^verbatim>\<open>False\<close> and records an unhealthy health check for the
  agent (committed when the store accepts the call, nothing otherwise); the dispatch
  \<^verbatim>\<open>send_chat_request\<close> returns no reply and records nothing; neither records a
  circuit-breaker event, and neither raises.
\<close>

theorem timeout_is_absorbed:
  assumes "get_agent_by_id st agent_id = Some agent"
    and "subscript (JObj agent) ''agent_name'' = Inr name"
    and "subscript (JObj agent) ''endpoint_url'' = Inr endpoint"
    and "net endpoint = TimedOut"
  shows "send_mcp_message net endpoint = None \<and>
    send_health_check st net ms agent_id =
      Inr (False,
           (let q = Call ''record_health_check''
                      [VJson (JStr agent_id), VJson (JStr ''unhealthy''),
                       VJson JNull, VJson JNull, VJson (JStr ''No valid MCP response''),
                       VDumps (JObj [(''mcp_protocol'', JBool True)])]
            in case execute st q of Inl e \<Rightarrow> [] | Inr rows \<Rightarrow> [q])) \<and>
    send_chat_request st net now agent_id session_id message context = Inr (JNull, [])"
  using assms
  by (auto simp: send_mcp_message_def send_health_check_def send_chat_request_def bind_err_def
      Let_def split: option.splits sum.splits)

theorem timeout_is_absorbed_witness:
  "get_agent_by_id store_agent ''a1'' =
     Some [(''agent_id'', JStr ''a1''), (''agent_name'', JStr ''abc''),
           (''endpoint_url'', JStr ''http://a''),
           (''session_id'', JStr ''s1''), (''phone_number'', JStr ''+1555'')] \<and>
   net_timeout (JStr ''http://a'') = TimedOut \<and>
   send_mcp_message net_timeout (JStr ''http://a'') = None \<and>
   fst (projr (send_health_check store_agent net_timeout 30000 ''a1'')) = False \<and>
   send_chat_request store_agent net_timeout 7 ''a1'' ''s1'' ''hi'' None = Inr (JNull, [])"
proof -
  have n: "subscript (JObj [(''agent_id'', JStr ''a1''), (''agent_name'', JStr ''abc''),
           (''endpoint_url'', JStr ''http://a''),
           (''session_id'', JStr ''s1''), (''phone_number'', JStr ''+1555'')]) ''agent_name'' =
        Inr (JStr ''abc'')"
    and e: "subscript (JObj [(''agent_id'', JStr ''a1''), (''agent_name'', JStr ''abc''),
           (''endpoint_url'', JStr ''http://a''),
           (''session_id'', JStr ''s1''), (''phone_number'', JStr ''+1555'')]) ''endpoint_url'' =
        Inr (JStr ''http://a'')"
    and t: "net_timeout (JStr ''http://a'') = TimedOut"
    by (simp_all add: net_timeout_def)
  from timeout_is_absorbed[of store_agent "''a1''" _ _ "JStr ''http://a''" net_timeout
      30000 7 "''s1''" "''hi''" None, OF store_agent_row n e t]
    store_agent_row t
  show ?thesis by simp
qed


section \<open>Properties of the control-plane core\<close>

subsection \<open>Auto-disable\<close>






subsection \<open>Session reuse\<close>

lemma find_snoc:
  "find P (xs @ [x]) = (case find P xs of Some y \<Rightarrow> Some y | None \<Rightarrow> if P x then Some x else None)"
  by (induction xs) auto

text \<open>
  Claim C3: while an active session exists for a caller key and agent type,
  \<open>getOrCreateSession\<close> returns that session and leaves the state unchanged, whatever
  the health records say about its agent; and after any successful call, a second call
  with the same caller key and agent type returns the same session, with the same
  identity and owner, and creates nothing.
\<close>

theorem get_or_create_session_idempotent:
  assumes "get_or_create_session token nonce now c k ty = Inr (s, c')"
  shows "(\<forall>s0. find_session c k ty = Some s0 \<longrightarrow> s = s0 \<and> c' = c) \<and>
         (\<forall>s0 hm. find_session c k ty = Some s0 \<longrightarrow>
            get_or_create_session token nonce now (c\<lparr>health := hm\<rparr>) k ty =
              Inr (s0, c\<lparr>health := hm\<rparr>)) \<and>
         get_or_create_session token' nonce' now' c' k ty = Inr (s, c')"
proof (cases "find_session c k ty")
  case (Some s0)
  with assms have "s = s0" "c' = c" by (simp_all add: get_or_create_session_def)
  moreover have "\<And>hm. find_session (c\<lparr>health := hm\<rparr>) k ty = find_session c k ty"
    by (simp add: find_session_def)
  ultimately show ?thesis using Some by (simp add: get_or_create_session_def)
next
  case None
  with assms obtain a where a: "select_agent c ty (\<lambda>a. False) = Some a"
    by (auto simp: get_or_create_session_def split: option.splits)
  from assms None a have s: "s = \<lparr>session_ident = next_ident c, caller_key = k, requested_type = ty,
                        owner = agent_ident a, integrity_token = token (next_ident c) nonce,
                        history = [], activity = now, active = True,
                        failover_eligible = False\<rparr>"
    and c': "sessions c' = sessions c @ [s]"
    by (auto simp: get_or_create_session_def Let_def)
  have "find_session c' k ty = Some s"
    using None unfolding find_session_def c' find_snoc by (simp add: s)
  with None show ?thesis by (simp add: get_or_create_session_def)
qed

theorem get_or_create_session_idempotent_witness:
  "\<exists>s c'. get_or_create_session (\<lambda>i n. ''tok'') 0 5 example_core ''+1666'' ''general'' = Inr (s, c') \<and>
          session_ident s = 11 \<and> owner s = 2 \<and>
          get_or_create_session (\<lambda>i n. ''other'') 1 9 c' ''+1666'' ''general'' = Inr (s, c')"
proof -
  have "\<exists>s c'. get_or_create_session (\<lambda>i n. ''tok'') 0 5 example_core ''+1666'' ''general'' = Inr (s, c') \<and>
          session_ident s = 11 \<and> owner s = 2"
    by (simp add: get_or_create_session_def find_session_def example_core_def select_agent_def
        better_def score_of_def Let_def)
  then obtain s c' where
    r: "get_or_create_session (\<lambda>i n. ''tok'') 0 5 example_core ''+1666'' ''general'' = Inr (s, c')"
    and o: "session_ident s = 11" "owner s = 2" by blast
  from get_or_create_session_idempotent[OF r, of "\<lambda>i n. ''other''" 1 9] r o
  show ?thesis by blast
qed

subsection \<open>Failover and conversation history\<close>

lemma failover_sessions:
  assumes "failover c sid = Inr (n, c')"
  shows "\<exists>f. sessions c' = map (\<lambda>t. if session_ident t = sid then t\<lparr>owner := f t\<rparr> else t) (sessions c)"
proof -
  from assms obtain s where s: "find (\<lambda>s. session_ident s = sid) (sessions c) = Some s" "active s"
    by (auto simp: failover_def split: option.splits if_splits)
  show ?thesis
  proof (cases "owner_is_healthy c s")
    case True
    with assms s have "c' = c" by (simp add: failover_def)
    moreover
    have "sessions c = map (\<lambda>t. if session_ident t = sid then t\<lparr>owner := owner t\<rparr> else t) (sessions c)"
      by (simp add: map_idI)
    ultimately show ?thesis by blast
  next
    case False
    with assms s obtain a where
      a: "select_agent c (requested_type s)
            (\<lambda>a. agent_ident a = owner s \<or> flagged_unhealthy c a) = Some a"
      by (auto simp: failover_def split: option.splits)
    with assms s False have
      "sessions c' = map (\<lambda>t. if session_ident t = sid then t\<lparr>owner := agent_ident a\<rparr> else t) (sessions c)"
      by (auto simp: failover_def)
    then show ?thesis by (rule exI[of _ "\<lambda>t. agent_ident a"])
  qed
qed

text \<open>
  Claim C5: a successful failover leaves the conversation history of every session
  exactly as it was (nothing removed, truncated, replayed or reordered), changes no
  field of a session other than its owner, and so leaves every history at least as long
  as before.
\<close>

theorem failover_keeps_history:
  assumes "failover c sid = Inr (new_agent, c')"
  shows "map history (sessions c') = map history (sessions c) \<and>
         map (\<lambda>s. s\<lparr>owner := 0\<rparr>) (sessions c') = map (\<lambda>s. s\<lparr>owner := 0\<rparr>) (sessions c) \<and>
         length (sessions c') = length (sessions c) \<and>
         list_all2 (\<lambda>s' s. length (history s) \<le> length (history s')) (sessions c') (sessions c)"
proof -
  from failover_sessions[OF assms] obtain f where
    f: "sessions c' = map (\<lambda>t. if session_ident t = sid then t\<lparr>owner := f t\<rparr> else t) (sessions c)"
    by blast
  have 1: "map history (sessions c') = map history (sessions c)"
    unfolding f by (induction "sessions c") auto
  have 2: "map (\<lambda>s. s\<lparr>owner := 0\<rparr>) (sessions c') = map (\<lambda>s. s\<lparr>owner := 0\<rparr>) (sessions c)"
    unfolding f by auto
  have 3: "list_all2 (\<lambda>s' s. length (history s) \<le> length (history s')) (sessions c') (sessions c)"
    unfolding f by (simp add: list_all2_map1 list_all2_same)
  from 1 2 3 show ?thesis unfolding f by simp
qed

theorem failover_keeps_history_witness:
  "\<exists>c'. failover example_core 10 = Inr (2, c') \<and>
        map history (sessions example_core) = [[''hello'', ''hi'']] \<and>
        map history (sessions c') = [[''hello'', ''hi'']]"
proof -
  have "\<exists>c'. failover example_core 10 = Inr (2, c')"
    by (simp add: failover_def example_core_def owner_is_healthy_def find_agent_def
        select_agent_def flagged_unhealthy_def better_def score_of_def)
  then obtain c' where r: "failover example_core 10 = Inr (2, c')" by blast
  have "map history (sessions example_core) = [[''hello'', ''hi'']]"
    by (simp add: example_core_def)
  with failover_keeps_history[OF r] r show ?thesis by auto
qed


subsection \<open>Retry scheduling\<close>



end
